theory Spec2Isabelle
  imports Main "HOL-Library.Multiset" "HOL-Library.Sublist"
begin

section \<open>The syntax tree handed over by the parser\<close>

text \<open>
  \<^verbatim>\<open>analyze-complexity.ts\<close> never builds a tree itself: it receives one from
  \<^verbatim>\<open>ts.createSourceFile\<close> and reads it through a handful of accessors. The model keeps
  exactly what those accessors return.

  A \<open>syntaxKind\<close> is the discriminant tested by the \<^verbatim>\<open>ts.isXxx\<close> predicates and by
  \<^verbatim>\<open>operatorToken.kind\<close>. Kinds the script never tests are kept apart by name where the
  examples need them and are otherwise \<open>OtherKind\<close>.
\<close>

datatype syntaxKind =
    SourceFile
  | FunctionDeclaration | MethodDeclaration | ArrowFunction | FunctionExpression
  | VariableDeclaration | PropertyAssignment
  | IfStatement | ConditionalExpression
  | WhileStatement | DoStatement | ForStatement | ForInStatement | ForOfStatement
  | CaseClause | DefaultClause | CatchClause
  | BinaryExpression
  | TryStatement | SwitchStatement
  | Block | CaseBlock | ReturnStatement | Identifier
  | AmpersandAmpersandToken | BarBarToken | PlusToken | EqualsEqualsEqualsToken
  | OtherKind nat

text \<open>
  A node carries
  \<^item> \<open>kind\<close>: its discriminant;
  \<^item> \<open>nameText\<close>: the result of \<^verbatim>\<open>node.name?.getText()\<close>, \<open>None\<close> when the node has no
    \<^verbatim>\<open>name\<close>; the text is whatever the parser recorded, so it may be any string;
  \<^item> \<open>operatorToken\<close>: the kind read by \<^verbatim>\<open>n.operatorToken.kind\<close>. The declared type of a
    binary expression makes the token mandatory; \<open>None\<close> stands for a malformed node on
    which that property read raises a \<^verbatim>\<open>TypeError\<close>;
  \<^item> \<open>parametersLength\<close>: \<^verbatim>\<open>node.parameters.length\<close>;
  \<^item> \<open>getStart\<close> and \<open>getWidth\<close>: the offset of the first token and the width of the node, so
    that \<open>getEnd\<close> never precedes \<open>getStart\<close>, as for every node the parser builds;
  \<^item> \<open>children\<close>: the nodes \<^verbatim>\<open>ts.forEachChild\<close> passes to its callback, in order.
\<close>

datatype node =
  Node (kind: syntaxKind) (nameText: "string option") (operatorToken: "syntaxKind option")
       (parametersLength: nat) (getStart: nat) (getWidth: nat) (children: "node list")

definition getEnd :: "node \<Rightarrow> nat" where
  "getEnd n = getStart n + getWidth n"

text \<open>Exceptions of the runtime and of the file system that the script can meet.\<close>

datatype error = ReadError | ParseError | TypeError | StatError | ReaddirError

section \<open>Cyclomatic complexity\<close>

text \<open>
  \<^verbatim>\<open>calculateComplexity\<close> keeps a counter in a local variable that the closure
  \<^verbatim>\<open>visit\<close> increments; the model passes the counter through the traversal.
  \<open>isBranchKind\<close> is the first \<^verbatim>\<open>if\<close> of \<^verbatim>\<open>visit\<close>, with its nine tests.
\<close>

definition isBranchKind :: "syntaxKind \<Rightarrow> bool" where
  "isBranchKind k \<longleftrightarrow>
     k = IfStatement \<or> k = ConditionalExpression \<or> k = WhileStatement \<or> k = DoStatement \<or>
     k = ForStatement \<or> k = ForInStatement \<or> k = ForOfStatement \<or> k = CaseClause \<or>
     k = CatchClause"

fun visitComplexity :: "node \<Rightarrow> int \<Rightarrow> error + int"
and forEachChildComplexity :: "node list \<Rightarrow> int \<Rightarrow> error + int" where
  "visitComplexity (Node k nm opt ps s w cs) complexity =
     (let c1 = (if isBranchKind k then complexity + 1 else complexity) in
      if k = BinaryExpression then
        (case opt of
           None \<Rightarrow> Inl TypeError
         | Some t \<Rightarrow>
             forEachChildComplexity cs
               (if t = AmpersandAmpersandToken \<or> t = BarBarToken then c1 + 1 else c1))
      else forEachChildComplexity cs c1)"
| "forEachChildComplexity [] complexity = Inr complexity"
| "forEachChildComplexity (n # ns) complexity =
     (case visitComplexity n complexity of
        Inl e \<Rightarrow> Inl e
      | Inr c \<Rightarrow> forEachChildComplexity ns c)"

definition calculateComplexity :: "node \<Rightarrow> error + int" where
  "calculateComplexity n = forEachChildComplexity (children n) 1"

section \<open>Maximum nesting depth\<close>

text \<open>
  \<^verbatim>\<open>calculateMaxNesting\<close> keeps the running maximum in \<^verbatim>\<open>maxDepth\<close> and hands the
  current depth down as an argument of \<^verbatim>\<open>visit\<close>. In the model the last argument is the
  running maximum and the result is its new value.
\<close>

definition isNestingKind :: "syntaxKind \<Rightarrow> bool" where
  "isNestingKind k \<longleftrightarrow>
     k = IfStatement \<or> k = WhileStatement \<or> k = DoStatement \<or> k = ForStatement \<or>
     k = ForInStatement \<or> k = ForOfStatement \<or> k = TryStatement \<or> k = SwitchStatement"

fun visitNesting :: "node \<Rightarrow> int \<Rightarrow> int \<Rightarrow> int"
and forEachChildNesting :: "node list \<Rightarrow> int \<Rightarrow> int \<Rightarrow> int" where
  "visitNesting (Node k nm opt ps s w cs) currentDepth maxDepth =
     (if isNestingKind k
      then forEachChildNesting cs (currentDepth + 1) (max maxDepth (currentDepth + 1))
      else forEachChildNesting cs currentDepth maxDepth)"
| "forEachChildNesting [] newDepth maxDepth = maxDepth"
| "forEachChildNesting (n # ns) newDepth maxDepth =
     forEachChildNesting ns newDepth (visitNesting n newDepth maxDepth)"

definition calculateMaxNesting :: "node \<Rightarrow> int \<Rightarrow> int" where
  "calculateMaxNesting n depth = forEachChildNesting (children n) depth depth"

section \<open>What the two calculators are meant to compute\<close>

text \<open>
  The proper descendants of a node in document order. Nothing stops at a nested function:
  its body belongs to the subtree of the enclosing one.
\<close>

fun descendants :: "node \<Rightarrow> node list"
and descendantsOf :: "node list \<Rightarrow> node list" where
  "descendants (Node k nm opt ps s w cs) = descendantsOf cs"
| "descendantsOf [] = []"
| "descendantsOf (n # ns) = n # descendants n @ descendantsOf ns"

text \<open>
  A decision point in the words of the specification: one of the nine branching
  constructs, or a binary expression whose operator is \<^verbatim>\<open>&&\<close> or \<^verbatim>\<open>||\<close>. A switch
  statement is not one; its case clauses are.
\<close>

definition isDecisionPoint :: "node \<Rightarrow> bool" where
  "isDecisionPoint n \<longleftrightarrow>
     kind n \<in> {IfStatement, ConditionalExpression, WhileStatement, DoStatement, ForStatement,
               ForInStatement, ForOfStatement, CaseClause, CatchClause} \<or>
     (kind n = BinaryExpression \<and>
      (operatorToken n = Some AmpersandAmpersandToken \<or> operatorToken n = Some BarBarToken))"

definition decisionPoints :: "node \<Rightarrow> nat" where
  "decisionPoints f = length (filter isDecisionPoint (descendants f))"

text \<open>
  A subtree is well formed for the complexity calculator when every binary expression
  below the node has its operator token.
\<close>

definition operatorsPresent :: "node list \<Rightarrow> bool" where
  "operatorsPresent ns \<longleftrightarrow>
     list_all (\<lambda>d. kind d = BinaryExpression \<longrightarrow> operatorToken d \<noteq> None) ns"

text \<open>
  The constructs that open a level of nesting in the words of the specification, and the
  depth at which every descendant sits when the body of the node is at depth \<open>d\<close>:
  entering such a construct adds one, entering anything else (a catch clause, a case
  clause, a block, a nested function) adds nothing.
\<close>

definition opensNesting :: "node \<Rightarrow> bool" where
  "opensNesting n \<longleftrightarrow>
     kind n \<in> {IfStatement, WhileStatement, DoStatement, ForStatement, ForInStatement,
               ForOfStatement, TryStatement, SwitchStatement}"

fun depthsBelow :: "node \<Rightarrow> int \<Rightarrow> int list"
and depthsOf :: "node list \<Rightarrow> int \<Rightarrow> int list" where
  "depthsBelow (Node k nm opt ps s w cs) d = depthsOf cs d"
| "depthsOf [] d = []"
| "depthsOf (n # ns) d =
     (let d' = (if opensNesting n then d + 1 else d)
      in d' # depthsBelow n d') @ depthsOf ns d"

definition deepest :: "node \<Rightarrow> int" where
  "deepest f = Max (set (0 # depthsBelow f 0))"

section \<open>Source files, lines and parameters\<close>

text \<open>
  A parsed file: the name the parser recorded, the text as its sequence of UTF-16 code
  units (numbers from 0 to 65535; offsets count code units), and the root of the tree.
\<close>

type_synonym codeUnits = "int list"

record sourceFile =
  fileName :: string
  sourceText :: codeUnits
  root :: node

text \<open>
  The line map of the compiler. A line ends at a line feed, at a carriage return (which
  takes a line feed that follows it into the same break), at U+2028 and at U+2029; the
  next line starts behind the break. \<open>lineStartsFrom pos text\<close> lists the starts of the
  lines that begin behind the breaks of \<open>text\<close>, which itself begins at offset \<open>pos\<close>; the
  first line starts at 0. \<^verbatim>\<open>getLineAndCharacterOfPosition(pos).line\<close> is the index of the
  last line start that is not behind the offset.
\<close>

definition isLineBreak :: "int \<Rightarrow> bool" where
  "isLineBreak ch \<longleftrightarrow> ch = 0x0A \<or> ch = 0x0D \<or> ch = 0x2028 \<or> ch = 0x2029"

fun lineStartsFrom :: "nat \<Rightarrow> codeUnits \<Rightarrow> nat list" where
  "lineStartsFrom pos [] = []"
| "lineStartsFrom pos [ch] = (if isLineBreak ch then [pos + 1] else [])"
| "lineStartsFrom pos (ch # next # rest) =
     (if ch = 0x0D \<and> next = 0x0A then (pos + 2) # lineStartsFrom (pos + 2) rest
      else if isLineBreak ch then (pos + 1) # lineStartsFrom (pos + 1) (next # rest)
      else lineStartsFrom (pos + 1) (next # rest))"

definition computeLineStarts :: "codeUnits \<Rightarrow> nat list" where
  "computeLineStarts text = 0 # lineStartsFrom 0 text"

definition lineOfPosition :: "sourceFile \<Rightarrow> nat \<Rightarrow> int" where
  "lineOfPosition sf pos =
     int (length (filter (\<lambda>start. start \<le> pos) (computeLineStarts (sourceText sf)))) - 1"

definition countLines :: "node \<Rightarrow> sourceFile \<Rightarrow> int" where
  "countLines n sf =
     (let startLine = lineOfPosition sf (getStart n);
          endLine = lineOfPosition sf (getEnd n)
      in endLine - startLine + 1)"

definition countParameters :: "node \<Rightarrow> int" where
  "countParameters n = int (parametersLength n)"

section \<open>The function locator\<close>

record functionComplexity =
  name :: string
  filePath :: string
  lineNumber :: int
  cyclomaticComplexity :: int
  linesOfCode :: int
  maxNestingDepth :: int
  parameterCount :: int

definition isFunctionLike :: "syntaxKind \<Rightarrow> bool" where
  "isFunctionLike k \<longleftrightarrow>
     k = FunctionDeclaration \<or> k = MethodDeclaration \<or> k = ArrowFunction \<or>
     k = FunctionExpression"

definition anonymous :: string where
  "anonymous = ''(anonymous)''"

text \<open>
  \<^verbatim>\<open>getFunctionName\<close>. The first argument is \<^verbatim>\<open>node.parent\<close>, \<open>None\<close> for a node without
  one: \<^verbatim>\<open>ts.isVariableDeclaration(undefined)\<close> reads \<^verbatim>\<open>kind\<close> of \<^verbatim>\<open>undefined\<close> and
  raises. In the first branch \<^verbatim>\<open>node.name?.getText() || '(anonymous)'\<close> falls back both
  for a missing name and for an empty text; the two parent branches test that
  \<^verbatim>\<open>parent.name\<close> is there and return its text as it is.
\<close>

definition getFunctionName :: "node option \<Rightarrow> node \<Rightarrow> error + string" where
  "getFunctionName parent n =
     (if kind n = FunctionDeclaration \<or> kind n = MethodDeclaration then
        (case nameText n of
           None \<Rightarrow> Inr anonymous
         | Some t \<Rightarrow> Inr (if t = [] then anonymous else t))
      else
        (case parent of
           None \<Rightarrow> Inl TypeError
         | Some p \<Rightarrow>
             (case (kind p = VariableDeclaration, nameText p) of
                (True, Some t) \<Rightarrow> Inr t
              | _ \<Rightarrow>
                  (case (kind p = PropertyAssignment, nameText p) of
                     (True, Some t) \<Rightarrow> Inr t
                   | _ \<Rightarrow> Inr anonymous))))"

text \<open>
  The analyzer object: its only field is the array \<^verbatim>\<open>functions\<close> (\<open>functionsArray\<close>
  here), created empty by the field initialiser and only ever extended by \<^verbatim>\<open>push\<close>.
\<close>

record analyzer =
  functionsArray :: "functionComplexity list"

definition newAnalyzer :: analyzer where
  "newAnalyzer = \<lparr>functionsArray = []\<rparr>"

text \<open>
  \<^verbatim>\<open>analyzeFunctionNode\<close> computes the name, the line and the four metrics in the order of
  the source and pushes one record. An exception of the name resolver or of the complexity
  calculator leaves before the push, so the array is as it was.
\<close>

definition analyzeFunctionNode ::
  "sourceFile \<Rightarrow> node option \<Rightarrow> node \<Rightarrow> analyzer \<Rightarrow> (error + unit) \<times> analyzer" where
  "analyzeFunctionNode sf parent n st =
     (case getFunctionName parent n of
        Inl e \<Rightarrow> (Inl e, st)
      | Inr nm \<Rightarrow>
          (let line = lineOfPosition sf (getStart n) + 1 in
           case calculateComplexity n of
             Inl e \<Rightarrow> (Inl e, st)
           | Inr complexity \<Rightarrow>
               (let lines = countLines n sf;
                    maxNesting = calculateMaxNesting n 0;
                    params = countParameters n
                in (Inr (),
                    st\<lparr>functionsArray := functionsArray st @
                       [\<lparr>name = nm, filePath = fileName sf, lineNumber = line,
                         cyclomaticComplexity = complexity, linesOfCode = lines,
                         maxNestingDepth = maxNesting, parameterCount = params\<rparr>]\<rparr>))))"

text \<open>
  \<^verbatim>\<open>visitNode\<close>: a function-like node is analysed, then every child is visited, function
  or not. The analyzer is returned also when an exception ends the traversal, because the
  records pushed so far stay in the array. The tree is built with parent links, so
  \<^verbatim>\<open>node.parent\<close> is the node whose children are being visited and
  \<^verbatim>\<open>node.getSourceFile()\<close> is the file of the root; the traversal hands both down.
\<close>

fun visitNode ::
  "sourceFile \<Rightarrow> node option \<Rightarrow> node \<Rightarrow> analyzer \<Rightarrow> (error + unit) \<times> analyzer"
and forEachChildVisit ::
  "sourceFile \<Rightarrow> node \<Rightarrow> node list \<Rightarrow> analyzer \<Rightarrow> (error + unit) \<times> analyzer" where
  "visitNode sf parent (Node k nm opt ps s w cs) st =
     (if isFunctionLike k then
        (case analyzeFunctionNode sf parent (Node k nm opt ps s w cs) st of
           (Inl e, st') \<Rightarrow> (Inl e, st')
         | (Inr u, st') \<Rightarrow> forEachChildVisit sf (Node k nm opt ps s w cs) cs st')
      else forEachChildVisit sf (Node k nm opt ps s w cs) cs st)"
| "forEachChildVisit sf p [] st = (Inr (), st)"
| "forEachChildVisit sf p (c # cs) st =
     (case visitNode sf (Some p) c st of
        (Inl e, st') \<Rightarrow> (Inl e, st')
      | (Inr u, st') \<Rightarrow> forEachChildVisit sf p cs st')"

section \<open>Analysing a file\<close>

text \<open>
  The world outside the script: \<^verbatim>\<open>fs.readFileSync\<close> gives the text of a path or raises,
  \<^verbatim>\<open>ts.createSourceFile\<close> gives the tree for a path and a text or raises.
\<close>

record env =
  readFileSync :: "string \<Rightarrow> error + codeUnits"
  createSourceFile :: "string \<Rightarrow> codeUnits \<Rightarrow> error + sourceFile"

text \<open>
  \<^verbatim>\<open>analyze\<close>: everything stands inside one \<^verbatim>\<open>try\<close>, and the \<^verbatim>\<open>catch\<close> returns a new
  empty array whatever was raised. The result is a sum so that an exception leaving
  \<^verbatim>\<open>analyze\<close> would be \<open>Inl\<close>.
\<close>

definition analyze ::
  "env \<Rightarrow> string \<Rightarrow> analyzer \<Rightarrow> (error + functionComplexity list) \<times> analyzer" where
  "analyze world path st =
     (case readFileSync world path of
        Inl e \<Rightarrow> (Inr [], st)
      | Inr source \<Rightarrow>
          (case createSourceFile world path source of
             Inl e \<Rightarrow> (Inr [], st)
           | Inr sf \<Rightarrow>
               (case visitNode sf None (root sf) st of
                  (Inl e, st') \<Rightarrow> (Inr [], st')
                | (Inr u, st') \<Rightarrow> (Inr (functionsArray st'), st'))))"

definition analyzeFile :: "env \<Rightarrow> string \<Rightarrow> error + functionComplexity list" where
  "analyzeFile world path = fst (analyze world path newAnalyzer)"

section \<open>Walking a directory\<close>

text \<open>
  What \<^verbatim>\<open>fs.readdirSync\<close> and \<^verbatim>\<open>fs.statSync\<close> report about a directory: its entries in
  the order listed, each a file, a directory with its own contents, or a name on which
  \<^verbatim>\<open>statSync\<close> raises (a dangling link); a directory may also refuse to be listed.
  Neither call stands inside a \<^verbatim>\<open>try\<close>, so their exceptions leave \<^verbatim>\<open>analyzeDirectory\<close>.
\<close>

datatype dirContents = Entries "dirEntry list" | ReaddirFails
and dirEntry = FileEntry string | DirectoryEntry string dirContents | StatFails string

definition startsWith :: "string \<Rightarrow> string \<Rightarrow> bool" where
  "startsWith file p \<longleftrightarrow> take (length p) file = p"

definition endsWith :: "string \<Rightarrow> string \<Rightarrow> bool" where
  "endsWith file ext \<longleftrightarrow>
     length ext \<le> length file \<and> drop (length file - length ext) file = ext"

definition descendInto :: "string \<Rightarrow> bool" where
  "descendInto file \<longleftrightarrow>
     \<not> startsWith file ''.'' \<and> file \<noteq> ''node_modules'' \<and> file \<noteq> ''dist''"

definition defaultExtensions :: "string list" where
  "defaultExtensions = [''.ts'', ''.tsx'', ''.js'', ''.jsx'']"

text \<open>
  \<^verbatim>\<open>walk\<close>, with the array \<^verbatim>\<open>allFunctions\<close> of the enclosing function as the last
  argument. Each selected file goes to \<^verbatim>\<open>analyzeFile\<close>, and what it returns is pushed.
  \<^verbatim>\<open>path.join\<close> belongs to the platform's library; it is the first argument, \<open>pathJoin\<close>,
  and nothing is assumed about it.
\<close>

type_synonym joiner = "string \<Rightarrow> string \<Rightarrow> string"

fun walk ::
  "joiner \<Rightarrow> env \<Rightarrow> string list \<Rightarrow> string \<Rightarrow> dirContents \<Rightarrow> functionComplexity list \<Rightarrow>
   error + functionComplexity list"
and walkEntries ::
  "joiner \<Rightarrow> env \<Rightarrow> string list \<Rightarrow> string \<Rightarrow> dirEntry list \<Rightarrow> functionComplexity list \<Rightarrow>
   error + functionComplexity list" where
  "walk pathJoin world extensions dir ReaddirFails allFunctions = Inl ReaddirError"
| "walk pathJoin world extensions dir (Entries files) allFunctions =
     walkEntries pathJoin world extensions dir files allFunctions"
| "walkEntries pathJoin world extensions dir [] allFunctions = Inr allFunctions"
| "walkEntries pathJoin world extensions dir (StatFails file # rest) allFunctions =
     Inl StatError"
| "walkEntries pathJoin world extensions dir (DirectoryEntry file sub # rest) allFunctions =
     (if descendInto file then
        (case walk pathJoin world extensions (pathJoin dir file) sub allFunctions of
           Inl e \<Rightarrow> Inl e
         | Inr fs \<Rightarrow> walkEntries pathJoin world extensions dir rest fs)
      else walkEntries pathJoin world extensions dir rest allFunctions)"
| "walkEntries pathJoin world extensions dir (FileEntry file # rest) allFunctions =
     (if list_ex (endsWith file) extensions then
        (case analyzeFile world (pathJoin dir file) of
           Inl e \<Rightarrow> Inl e
         | Inr fs \<Rightarrow> walkEntries pathJoin world extensions dir rest (allFunctions @ fs))
      else walkEntries pathJoin world extensions dir rest allFunctions)"

definition analyzeDirectory ::
  "joiner \<Rightarrow> env \<Rightarrow> string \<Rightarrow> dirContents \<Rightarrow> string list \<Rightarrow>
   error + functionComplexity list" where
  "analyzeDirectory pathJoin world dirPath contents extensions =
     walk pathJoin world extensions dirPath contents []"

text \<open>
  The paths the walk hands to \<^verbatim>\<open>analyzeFile\<close>, in order, and the condition that the walk
  meets no entry on which listing or \<^verbatim>\<open>statSync\<close> raises (entries of a skipped directory
  are never looked at).
\<close>

fun selectedFiles :: "joiner \<Rightarrow> string list \<Rightarrow> string \<Rightarrow> dirContents \<Rightarrow> string list"
and selectedAmong :: "joiner \<Rightarrow> string list \<Rightarrow> string \<Rightarrow> dirEntry list \<Rightarrow> string list" where
  "selectedFiles pathJoin extensions dir ReaddirFails = []"
| "selectedFiles pathJoin extensions dir (Entries files) =
     selectedAmong pathJoin extensions dir files"
| "selectedAmong pathJoin extensions dir [] = []"
| "selectedAmong pathJoin extensions dir (StatFails file # rest) =
     selectedAmong pathJoin extensions dir rest"
| "selectedAmong pathJoin extensions dir (DirectoryEntry file sub # rest) =
     (if descendInto file then selectedFiles pathJoin extensions (pathJoin dir file) sub else []) @
     selectedAmong pathJoin extensions dir rest"
| "selectedAmong pathJoin extensions dir (FileEntry file # rest) =
     (if list_ex (endsWith file) extensions then [pathJoin dir file] else []) @
     selectedAmong pathJoin extensions dir rest"

fun walkable :: "dirContents \<Rightarrow> bool"
and walkableEntries :: "dirEntry list \<Rightarrow> bool" where
  "walkable ReaddirFails = False"
| "walkable (Entries files) = walkableEntries files"
| "walkableEntries [] = True"
| "walkableEntries (StatFails file # rest) = False"
| "walkableEntries (DirectoryEntry file sub # rest) =
     ((if descendInto file then walkable sub else True) \<and> walkableEntries rest)"
| "walkableEntries (FileEntry file # rest) = walkableEntries rest"

text \<open>A file fails when reading it or parsing it raises.\<close>

definition readOrParseFails :: "env \<Rightarrow> string \<Rightarrow> bool" where
  "readOrParseFails world path =
     (case readFileSync world path of
        Inl e \<Rightarrow> True
      | Inr source \<Rightarrow> (case createSourceFile world path source of Inl e \<Rightarrow> True | Inr sf \<Rightarrow> False))"

section \<open>Classification and the summary\<close>

text \<open>
  \<^verbatim>\<open>getComplexityRating\<close> returns one of four labels; the labels are a datatype here.
  Complexities are counts, hence integers.
\<close>

datatype rating = Simple | Moderate | Complex | VeryComplex

definition getComplexityRating :: "int \<Rightarrow> rating" where
  "getComplexityRating complexity =
     (if complexity \<le> 10 then Simple
      else if complexity \<le> 20 then Moderate
      else if complexity \<le> 50 then Complex
      else VeryComplex)"

text \<open>
  \<^verbatim>\<open>Array.prototype.sort\<close> with a comparison function: the result is ordered by the
  comparator and, since ECMAScript 2019, stable. Stable insertion gives that result for
  every consistent comparator: an element goes in front of the first later element that
  it does not have to follow.
\<close>

fun insertBy :: "('a \<Rightarrow> 'a \<Rightarrow> int) \<Rightarrow> 'a \<Rightarrow> 'a list \<Rightarrow> 'a list" where
  "insertBy cmp x [] = [x]"
| "insertBy cmp x (y # ys) = (if cmp x y \<le> 0 then x # y # ys else y # insertBy cmp x ys)"

definition arraySort :: "('a \<Rightarrow> 'a \<Rightarrow> int) \<Rightarrow> 'a list \<Rightarrow> 'a list" where
  "arraySort cmp xs = foldr (insertBy cmp) xs []"

definition compareFn :: "functionComplexity \<Rightarrow> functionComplexity \<Rightarrow> int" where
  "compareFn a b = cyclomaticComplexity b - cyclomaticComplexity a"

text \<open>The four tallies at the end of \<^verbatim>\<open>printSummary\<close>, each a \<^verbatim>\<open>filter(...).length\<close>.\<close>

record distribution =
  simple :: nat
  moderate :: nat
  complexCount :: nat
  veryComplex :: nat

definition tally :: "functionComplexity list \<Rightarrow> distribution" where
  "tally fs =
     \<lparr>simple = length (filter (\<lambda>f. cyclomaticComplexity f \<le> 10) fs),
      moderate = length (filter (\<lambda>f. cyclomaticComplexity f \<ge> 11 \<and> cyclomaticComplexity f \<le> 20) fs),
      complexCount = length (filter (\<lambda>f. cyclomaticComplexity f \<ge> 21 \<and> cyclomaticComplexity f \<le> 50) fs),
      veryComplex = length (filter (\<lambda>f. cyclomaticComplexity f > 50) fs)\<rparr>"

text \<open>
  \<^verbatim>\<open>printSummary\<close> receives a reference to the caller's array. The store maps references
  to array contents; \<^verbatim>\<open>functions.sort(...)\<close> rewrites the contents under the reference it
  is given and returns that same reference, so \<^verbatim>\<open>sorted\<close> and \<^verbatim>\<open>functions\<close> are one
  array. What is printed is kept as a value: nothing at all for an empty array, the
  all-clear line when no function reaches the threshold, otherwise the functions at or
  above the threshold, the ten rows shown, and the distribution (averages and layout are
  left out).
\<close>

type_synonym arrayRef = nat
type_synonym store = "arrayRef \<Rightarrow> functionComplexity list"

datatype printed =
    NothingToAnalyze
  | AllBelowThreshold
  | Summary (exceeding: "functionComplexity list") (rows: "functionComplexity list")
            (bands: distribution)

definition printSummary :: "arrayRef \<Rightarrow> int \<Rightarrow> store \<Rightarrow> printed \<times> store" where
  "printSummary functionsRef threshold h =
     (if length (h functionsRef) = 0 then (NothingToAnalyze, h)
      else
        (let h' = h(functionsRef := arraySort compareFn (h functionsRef));
             sorted = functionsRef;
             complex = filter (\<lambda>f. cyclomaticComplexity f \<ge> threshold) (h' sorted)
         in if length complex = 0 then (AllBelowThreshold, h')
            else (Summary complex (take 10 complex) (tally (h' functionsRef)), h')))"

section \<open>Notions used to state the properties\<close>

text \<open>The analyzer after some more records have been pushed.\<close>

definition pushed :: "analyzer \<Rightarrow> functionComplexity list \<Rightarrow> analyzer" where
  "pushed st rs = st\<lparr>functionsArray := functionsArray st @ rs\<rparr>"

text \<open>
  The name precedence as the specification words it: the node's own name first, whatever
  kind of function it is, then the variable, then the property, then the sentinel.
\<close>

definition ownNameFirst :: "node \<Rightarrow> node \<Rightarrow> string" where
  "ownNameFirst p n =
     (case nameText n of
        Some t \<Rightarrow> t
      | None \<Rightarrow>
          (if kind p = VariableDeclaration \<and> nameText p \<noteq> None then the (nameText p)
           else if kind p = PropertyAssignment \<and> nameText p \<noteq> None then the (nameText p)
           else anonymous))"

text \<open>The invariants of a record, the numeric ones apart.\<close>

definition numericInvariant :: "functionComplexity \<Rightarrow> bool" where
  "numericInvariant r \<longleftrightarrow>
     cyclomaticComplexity r \<ge> 1 \<and> linesOfCode r \<ge> 1 \<and> maxNestingDepth r \<ge> 0 \<and>
     parameterCount r \<ge> 0 \<and> lineNumber r \<ge> 1"

definition recordInvariant :: "functionComplexity \<Rightarrow> bool" where
  "recordInvariant r \<longleftrightarrow> numericInvariant r \<and> name r \<noteq> []"

text \<open>
  The records a tree yields: what a visit of its root pushes into a new analyzer, whether
  the visit ends normally or not.
\<close>

definition recordsOf :: "sourceFile \<Rightarrow> functionComplexity list" where
  "recordsOf sf = functionsArray (snd (visitNode sf None (root sf) newAnalyzer))"

text \<open>
  Every variable declaration and property assignment of the tree has a name whose text
  is not empty.
\<close>

definition holderNamed :: "node \<Rightarrow> bool" where
  "holderNamed d \<longleftrightarrow>
     (kind d = VariableDeclaration \<or> kind d = PropertyAssignment) \<longrightarrow> nameText d \<noteq> Some []"

definition holdersNamed :: "sourceFile \<Rightarrow> bool" where
  "holdersNamed sf \<longleftrightarrow> list_all holderNamed (root sf # descendants (root sf))"

text \<open>
  The analysis of a path succeeds when the file is read and parsed and the visit of its
  tree raises nothing; its own records are those of its tree.
\<close>

definition analysisSucceeds :: "env \<Rightarrow> string \<Rightarrow> bool" where
  "analysisSucceeds world path =
     (case readFileSync world path of
        Inl e \<Rightarrow> False
      | Inr source \<Rightarrow>
          (case createSourceFile world path source of
             Inl e \<Rightarrow> False
           | Inr sf \<Rightarrow> fst (visitNode sf None (root sf) newAnalyzer) = Inr ()))"

definition ownRecords :: "env \<Rightarrow> string \<Rightarrow> functionComplexity list" where
  "ownRecords world path =
     (case readFileSync world path of
        Inl e \<Rightarrow> []
      | Inr source \<Rightarrow>
          (case createSourceFile world path source of
             Inl e \<Rightarrow> []
           | Inr sf \<Rightarrow> recordsOf sf))"

definition visitRaises :: "env \<Rightarrow> string \<Rightarrow> analyzer \<Rightarrow> bool" where
  "visitRaises world path st =
     (case readFileSync world path of
        Inl e \<Rightarrow> False
      | Inr source \<Rightarrow>
          (case createSourceFile world path source of
             Inl e \<Rightarrow> False
           | Inr sf \<Rightarrow> (case fst (visitNode sf None (root sf) st) of Inl e \<Rightarrow> True | Inr u \<Rightarrow> False)))"

text \<open>What a path contributes to a directory walk.\<close>

definition contribution :: "env \<Rightarrow> string \<Rightarrow> functionComplexity list" where
  "contribution world path = (case analyzeFile world path of Inl e \<Rightarrow> [] | Inr rs \<Rightarrow> rs)"

text \<open>Two worlds that read and parse every path but one alike.\<close>

definition sameExcept :: "string \<Rightarrow> env \<Rightarrow> env \<Rightarrow> bool" where
  "sameExcept path world world' \<longleftrightarrow>
     (\<forall>q. q \<noteq> path \<longrightarrow>
        readFileSync world' q = readFileSync world q \<and>
        createSourceFile world' q = createSourceFile world q)"

definition descending :: "functionComplexity list \<Rightarrow> bool" where
  "descending fs \<longleftrightarrow> sorted_wrt (\<lambda>a b. cyclomaticComplexity a \<ge> cyclomaticComplexity b) fs"

definition withComplexity :: "int \<Rightarrow> functionComplexity list \<Rightarrow> functionComplexity list" where
  "withComplexity c fs = filter (\<lambda>f. cyclomaticComplexity f = c) fs"

section \<open>Concrete inputs\<close>

text \<open>The code units of a text of ASCII characters, and the line feed.\<close>

definition units :: "string \<Rightarrow> codeUnits" where
  "units s = map of_char s"

definition lineFeed :: codeUnits where
  "lineFeed = [0x0A]"

text \<open>Nodes without attributes, and a binary expression with its operator token.\<close>

definition leaf :: "syntaxKind \<Rightarrow> node" where
  "leaf k = Node k None None 0 0 0 []"

definition tree :: "syntaxKind \<Rightarrow> node list \<Rightarrow> node" where
  "tree k cs = Node k None None 0 0 0 cs"

definition binary :: "node \<Rightarrow> syntaxKind \<Rightarrow> node \<Rightarrow> node" where
  "binary l t r = Node BinaryExpression None (Some t) 0 0 0 [l, leaf t, r]"

text \<open>
  \<^verbatim>\<open>function h(x, y) { switch (x) { case 1: return x && y; case 2: return y; default: return 0 }\<close>
  \<^verbatim>\<open>  if (x || y) { try { f(() => { while (y) {} }) } catch (e) { } } }\<close>
\<close>

definition functionH :: node where
  "functionH =
     Node FunctionDeclaration (Some ''h'') None 2 0 150
       [leaf Identifier, leaf (OtherKind 0), leaf (OtherKind 0),
        tree Block
          [tree SwitchStatement
             [leaf Identifier,
              tree CaseBlock
                [tree CaseClause
                   [leaf (OtherKind 1),
                    tree ReturnStatement
                      [binary (leaf Identifier) AmpersandAmpersandToken (leaf Identifier)]],
                 tree CaseClause [leaf (OtherKind 1), tree ReturnStatement [leaf Identifier]],
                 tree DefaultClause [tree ReturnStatement [leaf (OtherKind 1)]]]],
           tree IfStatement
             [binary (leaf Identifier) BarBarToken (leaf Identifier),
              tree Block
                [tree TryStatement
                   [tree Block
                      [tree (OtherKind 2)
                         [leaf Identifier,
                          Node ArrowFunction None None 0 100 20
                            [tree Block [tree WhileStatement [leaf Identifier, leaf Block]]]]],
                    tree CatchClause
                      [Node VariableDeclaration (Some ''e'') None 0 130 1 [leaf Identifier],
                       leaf Block]]]]]]"

text \<open>
  Two scenarios of the specification:
  \<^verbatim>\<open>function g(a,b) { if (a) { if (b) { return 1; } } return 0; }\<close> and
  \<^verbatim>\<open>function h(x) { switch (x) { case 1: return 'a'; case 2: return 'b'; case 3: return 'c'; } }\<close>.
\<close>

definition nestedIfs :: node where
  "nestedIfs =
     Node FunctionDeclaration (Some ''g'') None 2 0 61
       [leaf Identifier, leaf (OtherKind 0), leaf (OtherKind 0),
        tree Block
          [tree IfStatement
             [leaf Identifier,
              tree Block
                [tree IfStatement
                   [leaf Identifier, tree Block [tree ReturnStatement [leaf (OtherKind 1)]]]]],
           tree ReturnStatement [leaf (OtherKind 1)]]]"

definition threeCases :: node where
  "threeCases =
     Node FunctionDeclaration (Some ''h'') None 1 0 89
       [leaf Identifier, leaf (OtherKind 0),
        tree Block
          [tree SwitchStatement
             [leaf Identifier,
              tree CaseBlock
                [tree CaseClause [leaf (OtherKind 1), tree ReturnStatement [leaf (OtherKind 1)]],
                 tree CaseClause [leaf (OtherKind 1), tree ReturnStatement [leaf (OtherKind 1)]],
                 tree CaseClause [leaf (OtherKind 1), tree ReturnStatement [leaf (OtherKind 1)]]]]]]"

text \<open>\<^verbatim>\<open>const x = function foo() {}\<close>: a named function expression held by a variable.\<close>

definition namedFunctionExpression :: node where
  "namedFunctionExpression = Node FunctionExpression (Some ''foo'') None 0 10 17 [leaf Identifier, leaf Block]"

definition variableX :: node where
  "variableX = Node VariableDeclaration (Some ''x'') None 0 6 21 [leaf Identifier, namedFunctionExpression]"

text \<open>\<^verbatim>\<open>const x = () => 1\<close> and \<^verbatim>\<open>{ run: () => 1 }\<close>.\<close>

definition arrowOne :: node where
  "arrowOne = Node ArrowFunction None None 0 10 7 [leaf (OtherKind 3), leaf (OtherKind 1)]"

definition propertyRun :: node where
  "propertyRun = Node PropertyAssignment (Some ''run'') None 0 2 12 [leaf Identifier, arrowOne]"

text \<open>
  \<^verbatim>\<open>try {} catch ( = () => 1) {}\<close>: the parser recovers from the missing binding name
  with an identifier of empty text, and the arrow function is the initialiser of that
  declaration.
\<close>

definition catchWithoutName :: sourceFile where
  "catchWithoutName =
     \<lparr>fileName = ''broken.ts'', sourceText = units ''try {} catch ( = () => 1) {}'',
      root = tree SourceFile
        [tree TryStatement
           [leaf Block,
            tree CatchClause
              [Node VariableDeclaration (Some []) None 0 15 9
                 [leaf Identifier, Node ArrowFunction None None 0 17 7 [leaf (OtherKind 3), leaf (OtherKind 1)]],
               leaf Block]]]\<rparr>"

text \<open>
  Two well-formed files, and a file whose second function holds a binary expression
  without operator token.
\<close>

definition fileA :: sourceFile where
  "fileA =
     \<lparr>fileName = ''src/a.ts'',
      sourceText = units ''function f(a) {'' @ lineFeed @ units ''  if (a) { return 1; }'' @
                   lineFeed @ units ''  return 0;'' @ lineFeed @ units ''}'' @ lineFeed @
                   units ''const g = () => 1'',
      root = tree SourceFile
        [Node FunctionDeclaration (Some ''f'') None 1 0 52
           [leaf Identifier, leaf (OtherKind 0),
            tree Block
              [tree IfStatement [leaf Identifier, tree Block [tree ReturnStatement [leaf (OtherKind 1)]]],
               tree ReturnStatement [leaf (OtherKind 1)]]],
         tree (OtherKind 4)
           [Node VariableDeclaration (Some ''g'') None 0 59 11
              [leaf Identifier, Node ArrowFunction None None 0 63 7 [leaf (OtherKind 3), leaf (OtherKind 1)]]]]\<rparr>"

definition fileC :: sourceFile where
  "fileC =
     \<lparr>fileName = ''src/lib/c.js'',
      sourceText = units ''function i(a,b) { return a && b || false; }'',
      root = tree SourceFile
        [Node FunctionDeclaration (Some ''i'') None 2 0 43
           [leaf Identifier, leaf (OtherKind 0), leaf (OtherKind 0),
            tree Block
              [tree ReturnStatement
                 [binary (binary (leaf Identifier) AmpersandAmpersandToken (leaf Identifier))
                    BarBarToken (leaf (OtherKind 1))]]]]\<rparr>"

definition fileM :: sourceFile where
  "fileM =
     \<lparr>fileName = ''src/m.ts'',
      sourceText = units ''function ok() {}'' @ lineFeed @
                   units ''function bad(a, b) { return a && b }'',
      root = tree SourceFile
        [Node FunctionDeclaration (Some ''ok'') None 0 0 16 [leaf Identifier, leaf Block],
         Node FunctionDeclaration (Some ''bad'') None 2 17 36
           [leaf Identifier, leaf (OtherKind 0), leaf (OtherKind 0),
            tree Block
              [tree ReturnStatement
                 [Node BinaryExpression None None 0 0 0 [leaf Identifier, leaf Identifier]]]]]\<rparr>"

text \<open>
  A world with those files: \<^verbatim>\<open>src/b.ts\<close> cannot be read, \<^verbatim>\<open>src/lib/p.tsx\<close> is read but
  the parser raises on it. The directory \<^verbatim>\<open>src\<close> also holds a file of another type and a
  \<^verbatim>\<open>node_modules\<close> that cannot be listed.
\<close>

definition exampleWorld :: env where
  "exampleWorld =
     \<lparr>readFileSync = (\<lambda>p.
        if p = ''src/a.ts'' then Inr (sourceText fileA)
        else if p = ''src/lib/c.js'' then Inr (sourceText fileC)
        else if p = ''src/m.ts'' then Inr (sourceText fileM)
        else if p = ''src/lib/p.tsx'' then Inr (units ''<'')
        else Inl ReadError),
      createSourceFile = (\<lambda>p source.
        if p = ''src/a.ts'' then Inr fileA
        else if p = ''src/lib/c.js'' then Inr fileC
        else if p = ''src/m.ts'' then Inr fileM
        else Inl ParseError)\<rparr>"

text \<open>
  \<^verbatim>\<open>path.join\<close> on a directory path without trailing separator or dot segments and a
  plain file name.
\<close>

definition slashJoin :: joiner where
  "slashJoin dir file = dir @ ''/'' @ file"

definition exampleDirectory :: dirContents where
  "exampleDirectory =
     Entries
       [FileEntry ''a.ts'', FileEntry ''b.ts'', FileEntry ''notes.md'',
        DirectoryEntry ''node_modules'' ReaddirFails,
        DirectoryEntry ''lib'' (Entries [FileEntry ''p.tsx'', FileEntry ''c.js''])]"

text \<open>The same world after \<^verbatim>\<open>src/a.ts\<close> has become unreadable.\<close>

definition laterWorld :: env where
  "laterWorld =
     exampleWorld\<lparr>readFileSync :=
       (\<lambda>p. if p = ''src/a.ts'' then Inl ReadError else readFileSync exampleWorld p)\<rparr>"

text \<open>Records that differ in name and complexity only.\<close>

definition rec :: "string \<Rightarrow> int \<Rightarrow> functionComplexity" where
  "rec nm c =
     \<lparr>name = nm, filePath = ''src/a.ts'', lineNumber = 1, cyclomaticComplexity = c,
      linesOfCode = 1, maxNestingDepth = 0, parameterCount = 0\<rparr>"

definition exampleRecords :: "functionComplexity list" where
  "exampleRecords =
     [rec ''a'' 3, rec ''b'' 12, rec ''c'' 3, rec ''d'' 51, rec ''e'' 12, rec ''f'' 21, rec ''g'' 10]"

definition exampleStore :: store where
  "exampleStore = (\<lambda>r. if r = 0 then exampleRecords else [rec ''z'' 1, rec ''y'' 2])"

section \<open>Facts about the calculators\<close>

lemma operatorsPresent_simps [simp]:
  "operatorsPresent [] = True"
  "operatorsPresent (n # ns) = ((kind n = BinaryExpression \<longrightarrow> operatorToken n \<noteq> None) \<and> operatorsPresent ns)"
  "operatorsPresent (xs @ ys) = (operatorsPresent xs \<and> operatorsPresent ys)"
  by (simp_all add: operatorsPresent_def)

lemma isDecisionPoint_Node:
  "isDecisionPoint (Node k nm opt ps s w cs) \<longleftrightarrow>
     isBranchKind k \<or> (k = BinaryExpression \<and> (opt = Some AmpersandAmpersandToken \<or> opt = Some BarBarToken))"
  by (auto simp: isDecisionPoint_def isBranchKind_def)

lemma not_branch_binary [simp]: "\<not> isBranchKind BinaryExpression"
  by (simp add: isBranchKind_def)

lemma complexity_counts:
  "visitComplexity n c =
     (if operatorsPresent (n # descendants n)
      then Inr (c + int (length (filter isDecisionPoint (n # descendants n))))
      else Inl TypeError)"
  "forEachChildComplexity ns c =
     (if operatorsPresent (descendantsOf ns)
      then Inr (c + int (length (filter isDecisionPoint (descendantsOf ns))))
      else Inl TypeError)"
proof (induction n c and ns c rule: visitComplexity_forEachChildComplexity.induct)
  case (1 k nm opt ps s w cs complexity)
  then show ?case
    by (cases opt) (auto simp: isDecisionPoint_Node Let_def)
next
  case (2 complexity)
  then show ?case by simp
next
  case (3 n ns complexity)
  then show ?case by (cases n) (auto simp: Let_def)
qed

lemma calculateComplexity_eq:
  "calculateComplexity f =
     (if operatorsPresent (descendants f) then Inr (1 + int (decisionPoints f)) else Inl TypeError)"
  by (cases f) (simp add: calculateComplexity_def decisionPoints_def complexity_counts)

lemma calculateComplexity_ge1: "calculateComplexity f = Inr c \<Longrightarrow> 1 \<le> c"
  by (auto simp: calculateComplexity_eq split: if_splits)

lemma opensNesting_Node [simp]: "opensNesting (Node k nm opt ps s w cs) = isNestingKind k"
  by (auto simp: opensNesting_def isNestingKind_def)

lemma nesting_mono:
  "maxDepth \<le> visitNesting n d maxDepth"
  "maxDepth \<le> forEachChildNesting ns d maxDepth"
  by (induction n d maxDepth and ns d maxDepth rule: visitNesting_forEachChildNesting.induct)
     (auto split: if_splits)

lemma nesting_fold:
  "d \<le> m \<Longrightarrow> visitNesting n d m = fold max (depthsOf [n] d) m"
  "d \<le> m \<Longrightarrow> forEachChildNesting ns d m = fold max (depthsOf ns d) m"
proof (induction n d m and ns d m rule: visitNesting_forEachChildNesting.induct)
  case (1 k nm opt ps s w cs currentDepth maxDepth)
  then show ?case
    by (auto simp: Let_def max_def)
next
  case (2 newDepth maxDepth)
  then show ?case by simp
next
  case (3 n ns newDepth maxDepth)
  have "newDepth \<le> visitNesting n newDepth maxDepth"
    using "3.prems" nesting_mono(1) [of maxDepth n newDepth] by linarith
  with 3 show ?case by (simp add: Let_def)
qed

lemma calculateMaxNesting_deepest: "calculateMaxNesting f 0 = deepest f"
proof (cases f)
  case (Node k nm opt ps s w cs)
  have "forEachChildNesting cs 0 0 = fold max (depthsOf cs 0) 0"
    by (rule nesting_fold(2)) simp
  moreover have "Max (set (0 # depthsOf cs 0)) = fold max (depthsOf cs 0) 0"
    by (rule Max.set_eq_fold)
  ultimately show ?thesis
    by (simp add: Node calculateMaxNesting_def deepest_def)
qed

lemma calculateMaxNesting_ge0: "0 \<le> calculateMaxNesting f 0"
  using nesting_mono(2) [of 0 "children f" 0] by (simp add: calculateMaxNesting_def)

lemma starts_upto_mono:
  "(a::nat) \<le> b \<Longrightarrow>
   length (filter (\<lambda>start. start \<le> a) xs) \<le> length (filter (\<lambda>start. start \<le> b) xs)"
  by (induction xs) auto

lemma lineOfPosition_mono: "a \<le> b \<Longrightarrow> lineOfPosition sf a \<le> lineOfPosition sf b"
  using starts_upto_mono [of a b "computeLineStarts (sourceText sf)"]
  by (simp add: lineOfPosition_def)

lemma countLines_ge1: "1 \<le> countLines n sf"
  using lineOfPosition_mono [of "getStart n" "getEnd n" sf]
  by (simp add: countLines_def Let_def getEnd_def)

lemma lineOfPosition_ge0: "0 \<le> lineOfPosition sf pos"
  by (simp add: lineOfPosition_def computeLineStarts_def)

lemma anonymous_nonempty [simp]: "anonymous \<noteq> []"
  by (simp add: anonymous_def)

lemma getFunctionName_nonempty:
  "getFunctionName parent n = Inr nm \<Longrightarrow> (\<And>p. parent = Some p \<Longrightarrow> holderNamed p) \<Longrightarrow> nm \<noteq> []"
  by (auto simp: getFunctionName_def holderNamed_def
       split: if_splits option.splits bool.splits)


lemma pushed_simps [simp]:
  "functionsArray (pushed st rs) = functionsArray st @ rs"
  "pushed (pushed st rs) rs' = pushed st (rs @ rs')"
  "pushed st [] = st"
  "functionsArray newAnalyzer = []"
  by (simp_all add: pushed_def newAnalyzer_def)

lemma analyzeFunctionNode_cases:
  "(\<exists>e. analyzeFunctionNode sf parent n st = (Inl e, st)) \<or>
   (\<exists>r. analyzeFunctionNode sf parent n st = (Inr (), pushed st [r]) \<and> numericInvariant r \<and>
        ((\<forall>p. parent = Some p \<longrightarrow> holderNamed p) \<longrightarrow> name r \<noteq> []))"
proof (cases "getFunctionName parent n")
  case (Inl e)
  then show ?thesis by (simp add: analyzeFunctionNode_def)
next
  case nm: (Inr nm)
  show ?thesis
  proof (cases "calculateComplexity n")
    case (Inl e)
    then show ?thesis using nm by (simp add: analyzeFunctionNode_def)
  next
    case (Inr c)
    let ?r = "\<lparr>name = nm, filePath = fileName sf,
               lineNumber = lineOfPosition sf (getStart n) + 1,
               cyclomaticComplexity = c, linesOfCode = countLines n sf,
               maxNestingDepth = calculateMaxNesting n 0,
               parameterCount = countParameters n\<rparr>"
    have "analyzeFunctionNode sf parent n st = (Inr (), pushed st [?r])"
      using nm Inr by (simp add: analyzeFunctionNode_def Let_def pushed_def)
    moreover have "numericInvariant ?r"
      using calculateComplexity_ge1 [OF Inr] countLines_ge1 [of n sf]
        calculateMaxNesting_ge0 [of n] lineOfPosition_ge0 [of sf "getStart n"]
      by (simp add: numericInvariant_def countParameters_def)
    moreover have "(\<forall>p. parent = Some p \<longrightarrow> holderNamed p) \<longrightarrow> name ?r \<noteq> []"
      using getFunctionName_nonempty [OF nm] by auto
    ultimately show ?thesis by blast
  qed
qed

lemma visit_numeric:
  "\<And>sf parent st. list_all numericInvariant (functionsArray st) \<Longrightarrow>
     list_all numericInvariant (functionsArray (snd (visitNode sf parent n st)))"
  "\<And>sf p st. list_all numericInvariant (functionsArray st) \<Longrightarrow>
     list_all numericInvariant (functionsArray (snd (forEachChildVisit sf p ns st)))"
proof (induction n and ns rule: descendants_descendantsOf.induct)
  case (1 k nm opt ps s w cs)
  let ?n = "Node k nm opt ps s w cs"
  show ?case
  proof (cases "isFunctionLike k")
    case False
    then show ?thesis using "1.IH" [OF "1.prems"] by simp
  next
    case True
    from analyzeFunctionNode_cases [of sf parent ?n st] show ?thesis
    proof (elim disjE exE conjE)
      fix e assume "analyzeFunctionNode sf parent ?n st = (Inl e, st)"
      then show ?thesis using True "1.prems" by simp
    next
      fix r assume a: "analyzeFunctionNode sf parent ?n st = (Inr (), pushed st [r])"
        and r: "numericInvariant r"
      have "list_all numericInvariant (functionsArray (pushed st [r]))"
        using r "1.prems" by simp
      from "1.IH" [OF this] show ?thesis using True a by simp
    qed
  qed
next
  case 2
  then show ?case by simp
next
  case (3 n ns)
  have a: "list_all numericInvariant (functionsArray (snd (visitNode sf (Some p) n st)))"
    using "3.prems" by (rule "3.IH"(1))
  have b: "list_all numericInvariant
     (functionsArray (snd (forEachChildVisit sf p ns (snd (visitNode sf (Some p) n st)))))"
    using a by (rule "3.IH"(2))
  show ?case
    using a b by (auto simp: split_beta split: sum.splits prod.splits)
qed

lemma visit_named:
  "\<And>sf parent st. list_all recordInvariant (functionsArray st) \<Longrightarrow>
     (\<And>p. parent = Some p \<Longrightarrow> holderNamed p) \<Longrightarrow> list_all holderNamed (n # descendants n) \<Longrightarrow>
     list_all recordInvariant (functionsArray (snd (visitNode sf parent n st)))"
  "\<And>sf p st. list_all recordInvariant (functionsArray st) \<Longrightarrow>
     holderNamed p \<Longrightarrow> list_all holderNamed (descendantsOf ns) \<Longrightarrow>
     list_all recordInvariant (functionsArray (snd (forEachChildVisit sf p ns st)))"
proof (induction n and ns rule: descendants_descendantsOf.induct)
  case (1 k nm opt ps s w cs)
  let ?n = "Node k nm opt ps s w cs"
  have kids: "list_all recordInvariant (functionsArray (snd (forEachChildVisit sf ?n cs st')))"
    if "list_all recordInvariant (functionsArray st')" for st'
    using that "1.prems"(3) by (intro "1.IH") simp_all
  have par: "\<forall>p. parent = Some p \<longrightarrow> holderNamed p"
    using "1.prems"(2) by blast
  show ?case
  proof (cases "isFunctionLike k")
    case False
    then show ?thesis using kids [OF "1.prems"(1)] by simp
  next
    case True
    from analyzeFunctionNode_cases [of sf parent ?n st] show ?thesis
    proof (elim disjE exE conjE)
      fix e assume "analyzeFunctionNode sf parent ?n st = (Inl e, st)"
      then show ?thesis using True "1.prems"(1) by simp
    next
      fix r assume a: "analyzeFunctionNode sf parent ?n st = (Inr (), pushed st [r])"
        and r: "numericInvariant r"
        and nm: "(\<forall>p. parent = Some p \<longrightarrow> holderNamed p) \<longrightarrow> name r \<noteq> []"
      have "recordInvariant r" using r nm par by (simp add: recordInvariant_def)
      then have "list_all recordInvariant (functionsArray (pushed st [r]))"
        using "1.prems"(1) by simp
      from kids [OF this] show ?thesis using True a by simp
    qed
  qed
next
  case 2
  then show ?case by simp
next
  case (3 n ns)
  have a: "list_all recordInvariant (functionsArray (snd (visitNode sf (Some p) n st)))"
    using "3.prems" by (intro "3.IH"(1)) simp_all
  have b: "list_all recordInvariant
     (functionsArray (snd (forEachChildVisit sf p ns (snd (visitNode sf (Some p) n st)))))"
    using a "3.prems" by (intro "3.IH"(2)) simp_all
  show ?case
    using a b by (auto simp: split_beta split: sum.splits prod.splits)
qed

section \<open>Facts about the analyzer and the walk\<close>

lemma visit_pushed:
  "\<And>sf parent st. visitNode sf parent n st =
     (fst (visitNode sf parent n newAnalyzer),
      pushed st (functionsArray (snd (visitNode sf parent n newAnalyzer))))"
  "\<And>sf p st. forEachChildVisit sf p ns st =
     (fst (forEachChildVisit sf p ns newAnalyzer),
      pushed st (functionsArray (snd (forEachChildVisit sf p ns newAnalyzer))))"
proof (induction n and ns rule: descendants_descendantsOf.induct)
  case (1 k nm opt ps s w cs)
  let ?n = "Node k nm opt ps s w cs"
  show ?case
  proof (cases "isFunctionLike k")
    case False
    then show ?thesis using "1.IH" [of sf ?n st] by simp
  next
    case True
    from analyzeFunctionNode_cases [of sf parent ?n newAnalyzer] show ?thesis
    proof (elim disjE exE conjE)
      fix e assume a: "analyzeFunctionNode sf parent ?n newAnalyzer = (Inl e, newAnalyzer)"
      then have "analyzeFunctionNode sf parent ?n st = (Inl e, st)"
        by (auto simp: analyzeFunctionNode_def Let_def split: sum.splits)
      then show ?thesis using True a by simp
    next
      fix r assume a: "analyzeFunctionNode sf parent ?n newAnalyzer = (Inr (), pushed newAnalyzer [r])"
      then have b: "analyzeFunctionNode sf parent ?n st = (Inr (), pushed st [r])"
        by (auto simp: analyzeFunctionNode_def Let_def pushed_def newAnalyzer_def split: sum.splits)
      show ?thesis
        using True a b "1.IH" [of sf ?n "pushed st [r]"] "1.IH" [of sf ?n "pushed newAnalyzer [r]"]
        by (simp add: split_beta)
    qed
  qed
next
  case 2
  then show ?case by simp
next
  case (3 n ns)
  obtain r a where ra: "visitNode sf (Some p) n newAnalyzer = (r, a)"
    by (cases "visitNode sf (Some p) n newAnalyzer")
  have st: "visitNode sf (Some p) n st = (r, pushed st (functionsArray a))"
    using "3.IH"(1) [of sf "Some p" st] ra by simp
  have a: "a = pushed newAnalyzer (functionsArray a)"
    by (simp add: pushed_def newAnalyzer_def)
  show ?case
  proof (cases r)
    case (Inl e)
    then show ?thesis using ra st by simp
  next
    case (Inr u)
    then show ?thesis
      using ra st "3.IH"(2) [of sf p "pushed st (functionsArray a)"]
          "3.IH"(2) [of sf p a]
      by (simp add: split_beta)
  qed
qed

lemma visitNode_from:
  "visitNode sf None (root sf) st = (fst (visitNode sf None (root sf) newAnalyzer), pushed st (recordsOf sf))"
  using visit_pushed(1) [of sf None "root sf" st] by (simp add: recordsOf_def)

lemma analyze_parsed:
  "readFileSync world path = Inr source \<Longrightarrow> createSourceFile world path source = Inr sf \<Longrightarrow>
   analyze world path st =
     (case fst (visitNode sf None (root sf) newAnalyzer) of
        Inl e \<Rightarrow> (Inr [], pushed st (recordsOf sf))
      | Inr u \<Rightarrow> (Inr (functionsArray st @ recordsOf sf), pushed st (recordsOf sf)))"
  by (simp add: analyze_def visitNode_from [of sf st] split: sum.splits)

lemma analyze_succeeds:
  assumes "analysisSucceeds world path"
  shows "analyze world path st =
     (Inr (functionsArray st @ ownRecords world path), pushed st (ownRecords world path))"
proof -
  from assms obtain source sf where
    "readFileSync world path = Inr source" "createSourceFile world path source = Inr sf"
    "fst (visitNode sf None (root sf) newAnalyzer) = Inr ()"
    by (auto simp: analysisSucceeds_def split: sum.splits)
  then show ?thesis
    using analyze_parsed [of world path source sf st] by (simp add: ownRecords_def)
qed

lemma analyze_keeps:
  "prefix (functionsArray st) (functionsArray (snd (analyze world path st)))"
proof (cases "readFileSync world path")
  case (Inl e)
  then show ?thesis by (simp add: analyze_def)
next
  case source: (Inr source)
  show ?thesis
  proof (cases "createSourceFile world path source")
    case (Inl e)
    then show ?thesis using source by (simp add: analyze_def)
  next
    case (Inr sf)
    show ?thesis
      using analyze_parsed [OF source Inr, of st] by (simp split: sum.splits)
  qed
qed

lemma analyze_without_success:
  assumes "\<not> analysisSucceeds world path"
  shows "fst (analyze world path st) = Inr []"
proof (cases "readFileSync world path")
  case (Inl e)
  then show ?thesis by (simp add: analyze_def)
next
  case source: (Inr source)
  show ?thesis
  proof (cases "createSourceFile world path source")
    case (Inl e)
    then show ?thesis using source by (simp add: analyze_def)
  next
    case (Inr sf)
    then have "fst (visitNode sf None (root sf) newAnalyzer) \<noteq> Inr ()"
      using assms source by (simp add: analysisSucceeds_def)
    then show ?thesis
      using analyze_parsed [OF source Inr, of st] by (simp split: sum.splits)
  qed
qed

text \<open>
  Every record that the visit of a tree produces has the numeric invariants; its name is
  not empty as long as no variable declaration and no property assignment of the tree has
  a name with empty text.
\<close>

lemma records_numeric: "list_all numericInvariant (recordsOf sf)"
  unfolding recordsOf_def by (rule visit_numeric(1)) simp

lemma records_named: "holdersNamed sf \<Longrightarrow> list_all recordInvariant (recordsOf sf)"
  unfolding recordsOf_def by (intro visit_named(1)) (simp_all add: holdersNamed_def)

lemma analyze_never_raises: "\<exists>rs. fst (analyze world path st) = Inr rs"
  by (auto simp: analyze_def split: sum.splits prod.splits)

lemma analyze_fails:
  "readOrParseFails world path \<Longrightarrow> analyze world path st = (Inr [], st)"
  by (auto simp: analyze_def readOrParseFails_def split: sum.splits)

lemma analyze_visitRaises:
  "visitRaises world path st \<Longrightarrow> fst (analyze world path st) = Inr []"
  by (auto simp: analyze_def visitRaises_def split: sum.splits prod.splits)

lemma walk_concat:
  "\<And>dir acc. walkable contents \<Longrightarrow> walk join world exts dir contents acc =
     Inr (acc @ concat (map (\<lambda>q. case analyzeFile world q of Inl e \<Rightarrow> [] | Inr rs \<Rightarrow> rs)
                         (selectedFiles join exts dir contents)))"
  "\<And>dir acc. walkableEntries files \<Longrightarrow> walkEntries join world exts dir files acc =
     Inr (acc @ concat (map (\<lambda>q. case analyzeFile world q of Inl e \<Rightarrow> [] | Inr rs \<Rightarrow> rs)
                         (selectedAmong join exts dir files)))"
proof (induction contents and files rule: walkable_walkableEntries.induct)
  case 1
  then show ?case by simp
next
  case (2 files)
  then show ?case by simp
next
  case 3
  then show ?case by simp
next
  case (4 f rest)
  then show ?case by simp
next
  case (5 f sub rest)
  then show ?case by simp
next
  case (6 f rest)
  obtain rs where "analyzeFile world (join dir f) = Inr rs"
    using analyze_never_raises [of world "join dir f" newAnalyzer]
    by (auto simp: analyzeFile_def)
  with 6 show ?case by simp
qed

section \<open>Facts about ranking and classification\<close>

lemma mset_insertBy: "mset (insertBy cmp x xs) = add_mset x (mset xs)"
  by (induction xs) auto

lemma mset_arraySort: "mset (arraySort cmp xs) = mset xs"
  by (induction xs) (auto simp: arraySort_def mset_insertBy)

lemma set_insertBy: "set (insertBy cmp x xs) = insert x (set xs)"
  by (induction xs) auto

lemma descending_insertBy:
  "descending xs \<Longrightarrow> descending (insertBy compareFn x xs)"
  by (induction xs) (auto simp: descending_def compareFn_def set_insertBy)

lemma descending_arraySort: "descending (arraySort compareFn xs)"
proof (induction xs)
  case Nil
  show ?case by (simp add: arraySort_def descending_def)
next
  case (Cons x xs)
  then show ?case using descending_insertBy [of "arraySort compareFn xs" x]
    by (simp add: arraySort_def)
qed

lemma withComplexity_insertBy:
  "descending xs \<Longrightarrow>
   withComplexity c (insertBy compareFn x xs) =
     (if cyclomaticComplexity x = c then x # withComplexity c xs else withComplexity c xs)"
  by (induction xs) (auto simp: descending_def compareFn_def withComplexity_def)

lemma withComplexity_arraySort:
  "withComplexity c (arraySort compareFn xs) = withComplexity c xs"
proof (induction xs)
  case Nil
  show ?case by (simp add: arraySort_def)
next
  case (Cons x xs)
  have "withComplexity c (arraySort compareFn (x # xs)) =
        withComplexity c (insertBy compareFn x (arraySort compareFn xs))"
    by (simp add: arraySort_def)
  also have "\<dots> = (if cyclomaticComplexity x = c then x # withComplexity c (arraySort compareFn xs)
                    else withComplexity c (arraySort compareFn xs))"
    by (rule withComplexity_insertBy) (rule descending_arraySort)
  also have "\<dots> = withComplexity c (x # xs)"
    using Cons by (simp add: withComplexity_def)
  finally show ?case .
qed

lemma length_arraySort: "length (arraySort cmp xs) = length xs"
  using mset_arraySort [of cmp xs] by (metis size_mset)

lemma rating_bands:
  "(getComplexityRating c = Simple \<longleftrightarrow> c \<le> 10) \<and>
   (getComplexityRating c = Moderate \<longleftrightarrow> 11 \<le> c \<and> c \<le> 20) \<and>
   (getComplexityRating c = Complex \<longleftrightarrow> 21 \<le> c \<and> c \<le> 50) \<and>
   (getComplexityRating c = VeryComplex \<longleftrightarrow> 51 \<le> c)"
  by (auto simp: getComplexityRating_def)

lemma tally_by_rating:
  "simple (tally fs) = length (filter (\<lambda>f. getComplexityRating (cyclomaticComplexity f) = Simple) fs)"
  "moderate (tally fs) = length (filter (\<lambda>f. getComplexityRating (cyclomaticComplexity f) = Moderate) fs)"
  "complexCount (tally fs) = length (filter (\<lambda>f. getComplexityRating (cyclomaticComplexity f) = Complex) fs)"
  "veryComplex (tally fs) = length (filter (\<lambda>f. getComplexityRating (cyclomaticComplexity f) = VeryComplex) fs)"
  by (simp_all add: tally_def rating_bands) (rule arg_cong [where f=length], rule filter_cong, auto)+

lemma tally_total:
  "simple (tally fs) + moderate (tally fs) + complexCount (tally fs) + veryComplex (tally fs) = length fs"
  by (induction fs) (auto simp: tally_def)

lemma printSummary_store:
  "snd (printSummary r t h) = h(r := arraySort compareFn (h r))"
proof (cases "h r")
  case Nil
  then have "h(r := arraySort compareFn (h r)) = h"
    by (auto simp: arraySort_def)
  then show ?thesis using Nil by (simp add: printSummary_def)
next
  case (Cons x xs)
  then show ?thesis by (simp add: printSummary_def Let_def)
qed

section \<open>Facts about the concrete inputs and about single files\<close>

text \<open>
  The line starts of a text with a carriage return and line feed, a lone carriage return,
  U+2028 and a line feed.
\<close>

lemma computeLineStarts_example:
  "computeLineStarts [97, 0x0D, 0x0A, 98, 0x0D, 99, 0x2028, 100, 0x0A, 101] = [0, 3, 5, 7, 9]"
  by code_simp

lemma scenarios:
  "calculateComplexity nestedIfs = Inr 3" "calculateMaxNesting nestedIfs 0 = 2"
  "calculateComplexity threeCases = Inr 4" "calculateMaxNesting threeCases 0 = 1"
  by code_simp+

lemma recordsOf_fileA:
  "visitNode fileA None (root fileA) newAnalyzer =
     (Inr (), \<lparr>functionsArray =
        [\<lparr>name = ''f'', filePath = ''src/a.ts'', lineNumber = 1, cyclomaticComplexity = 2,
          linesOfCode = 4, maxNestingDepth = 1, parameterCount = 1\<rparr>,
         \<lparr>name = ''g'', filePath = ''src/a.ts'', lineNumber = 5, cyclomaticComplexity = 1,
          linesOfCode = 1, maxNestingDepth = 0, parameterCount = 0\<rparr>]\<rparr>)"
  by code_simp

lemma recordsOf_fileC:
  "visitNode fileC None (root fileC) newAnalyzer =
     (Inr (), \<lparr>functionsArray =
        [\<lparr>name = ''i'', filePath = ''src/lib/c.js'', lineNumber = 1, cyclomaticComplexity = 3,
          linesOfCode = 1, maxNestingDepth = 0, parameterCount = 2\<rparr>]\<rparr>)"
  by code_simp

lemma recordsOf_fileM:
  "visitNode fileM None (root fileM) newAnalyzer =
     (Inl TypeError, \<lparr>functionsArray =
        [\<lparr>name = ''ok'', filePath = ''src/m.ts'', lineNumber = 1, cyclomaticComplexity = 1,
          linesOfCode = 1, maxNestingDepth = 0, parameterCount = 0\<rparr>]\<rparr>)"
  by code_simp

lemma recordsOf_catchWithoutName:
  "recordsOf catchWithoutName =
     [\<lparr>name = [], filePath = ''broken.ts'', lineNumber = 1, cyclomaticComplexity = 1,
       linesOfCode = 1, maxNestingDepth = 0, parameterCount = 0\<rparr>]"
  by code_simp

lemma exampleWorld_files:
  "readFileSync exampleWorld ''src/a.ts'' = Inr (sourceText fileA)"
  "createSourceFile exampleWorld ''src/a.ts'' src = Inr fileA"
  "readFileSync exampleWorld ''src/lib/c.js'' = Inr (sourceText fileC)"
  "createSourceFile exampleWorld ''src/lib/c.js'' src = Inr fileC"
  "readFileSync exampleWorld ''src/m.ts'' = Inr (sourceText fileM)"
  "createSourceFile exampleWorld ''src/m.ts'' src = Inr fileM"
  "readFileSync exampleWorld ''src/b.ts'' = Inl ReadError"
  "readFileSync exampleWorld ''src/lib/p.tsx'' = Inr (units ''<'')"
  "createSourceFile exampleWorld ''src/lib/p.tsx'' src = Inl ParseError"
  by (simp_all add: exampleWorld_def)

lemma exampleWorld_analyzeFile:
  "analyzeFile exampleWorld ''src/a.ts'' = Inr (recordsOf fileA)"
  "analyzeFile exampleWorld ''src/lib/c.js'' = Inr (recordsOf fileC)"
  "analyzeFile exampleWorld ''src/b.ts'' = Inr []"
  "analyzeFile exampleWorld ''src/lib/p.tsx'' = Inr []"
  by (simp_all add: analyzeFile_def analyze_def exampleWorld_files recordsOf_def
        recordsOf_fileA recordsOf_fileC)

lemma exampleDirectory_selected:
  "selectedFiles slashJoin defaultExtensions ''src'' exampleDirectory =
     [''src/a.ts'', ''src/b.ts'', ''src/lib/p.tsx'', ''src/lib/c.js'']"
  "walkable exampleDirectory"
  by (simp_all add: exampleDirectory_def defaultExtensions_def descendInto_def startsWith_def
        endsWith_def slashJoin_def)

lemma analyzeFile_frame:
  "readFileSync world' q = readFileSync world q \<Longrightarrow>
   createSourceFile world' q = createSourceFile world q \<Longrightarrow>
   analyzeFile world' q = analyzeFile world q"
  by (simp add: analyzeFile_def analyze_def split: sum.splits)

lemma analyzeFile_fails: "readOrParseFails world path \<Longrightarrow> analyzeFile world path = Inr []"
  by (simp add: analyzeFile_def analyze_fails)

lemma analyzeFile_never_raises: "analyzeFile world path \<noteq> Inl e"
  using analyze_never_raises [of world path newAnalyzer] by (auto simp: analyzeFile_def)

lemma contribution_after_failure:
  assumes "readOrParseFails world' path" "sameExcept path world world'"
  shows "contribution world' q = (if q = path then [] else contribution world q)"
proof (cases "q = path")
  case True
  then show ?thesis using assms(1) by (simp add: contribution_def analyzeFile_fails)
next
  case False
  then have "analyzeFile world' q = analyzeFile world q"
    using assms(2) by (intro analyzeFile_frame) (simp_all add: sameExcept_def)
  then show ?thesis using False by (simp add: contribution_def)
qed

section \<open>The properties\<close>

subsection \<open>Cyclomatic complexity\<close>

text \<open>
  C1. For every node \<open>f\<close>, and so for every function-like one, the complexity computed for
  \<open>f\<close> is 1 plus the number of proper descendants of \<open>f\<close>, the bodies of nested functions
  included, that are an if statement, a conditional expression, a while, do-while, for,
  for-in or for-of statement, a case clause, a catch clause, or a binary expression with
  operator \<^verbatim>\<open>&&\<close> or \<^verbatim>\<open>||\<close>. This is the result whenever every binary expression below
  \<open>f\<close> has its operator token, as the parser guarantees; otherwise the property read raises.
  A switch statement itself adds nothing: visiting it leaves the counter to its children.
\<close>

theorem complexity_counts_decision_points:
  "calculateComplexity f =
     (if operatorsPresent (descendants f) then Inr (1 + int (decisionPoints f))
      else Inl TypeError) \<and>
   visitComplexity (Node SwitchStatement nm opt ps s w cs) c = forEachChildComplexity cs c"
  by (simp add: calculateComplexity_eq isBranchKind_def)

text \<open>
  The function \<open>h\<close> above has seven decision points (two case clauses, \<^verbatim>\<open>&&\<close>, the if,
  \<^verbatim>\<open>||\<close>, the while inside the nested arrow function, the catch clause) and complexity 8.
\<close>

theorem complexity_counts_decision_points_witness:
  "operatorsPresent (descendants functionH) \<and> decisionPoints functionH = 7 \<and>
   calculateComplexity functionH = Inr 8"
proof -
  have a: "operatorsPresent (descendants functionH)" by code_simp
  have b: "decisionPoints functionH = 7" by code_simp
  show ?thesis
    using complexity_counts_decision_points [of functionH] a b by simp
qed

subsection \<open>Maximum nesting depth\<close>

text \<open>
  C2. For every node \<open>f\<close>, the maximum nesting depth computed for \<open>f\<close> with its body at
  depth 0 is the greatest depth at which a descendant sits, where the depth grows by
  exactly one on entering an if, while, do-while, for, for-in, for-of, try or switch node
  and by nothing on entering any other node: a switch counts once whatever its cases, a
  try counts once with its catch and finally parts adding nothing, and the depth is not
  reset when the traversal enters a nested function.
\<close>

theorem max_nesting_is_deepest:
  "calculateMaxNesting f 0 = deepest f"
  by (rule calculateMaxNesting_deepest)

text \<open>
  In \<open>h\<close> the while statement of the nested arrow function sits inside the try inside the
  if: depth 3.
\<close>

theorem max_nesting_is_deepest_witness:
  "calculateMaxNesting functionH 0 = 3 \<and> deepest functionH = 3"
proof -
  have "deepest functionH = 3" by code_simp
  then show ?thesis using max_nesting_is_deepest [of functionH] by simp
qed

subsection \<open>Display names\<close>

text \<open>
  C3 as stated gives the node's own name precedence for every kind of function. For the
  named function expression of \<^verbatim>\<open>const x = function foo() {}\<close> the own name is \<open>foo\<close>, and
  the resolver returns \<open>x\<close>.
\<close>

theorem own_name_first_counterexample:
  "isFunctionLike (kind namedFunctionExpression) \<and>
   nameText namedFunctionExpression = Some ''foo'' \<and>
   ownNameFirst variableX namedFunctionExpression = ''foo'' \<and>
   getFunctionName (Some variableX) namedFunctionExpression = Inr ''x''"
  by (simp add: isFunctionLike_def namedFunctionExpression_def variableX_def ownNameFirst_def
        getFunctionName_def)

text \<open>
  C3, amended. The own name is used only for a function declaration or a method: its
  text if there is one and it is not empty, the sentinel otherwise, whatever the parent.
  For an arrow function or a function expression the own name is never read: the name is
  that of the parent variable declaration if the parent is one and has a name, else that
  of the parent property assignment if the parent is one and has a name, else the
  sentinel. This agrees with the precedence "own name, variable, property, sentinel"
  for declarations and methods with a non-empty name and for arrow functions and function
  expressions without a name of their own.
\<close>

theorem name_precedence:
  "getFunctionName (Some p) n =
     Inr (if kind n = FunctionDeclaration \<or> kind n = MethodDeclaration then
            (if nameText n = None \<or> nameText n = Some [] then anonymous else the (nameText n))
          else if kind p = VariableDeclaration \<and> nameText p \<noteq> None then the (nameText p)
          else if kind p = PropertyAssignment \<and> nameText p \<noteq> None then the (nameText p)
          else anonymous) \<and>
   ((kind n = FunctionDeclaration \<or> kind n = MethodDeclaration) \<and> nameText n \<noteq> None \<and>
      nameText n \<noteq> Some [] \<or>
    (kind n = ArrowFunction \<or> kind n = FunctionExpression) \<and> nameText n = None
    \<longrightarrow> getFunctionName (Some p) n = Inr (ownNameFirst p n))"
  by (auto simp: getFunctionName_def ownNameFirst_def split: option.splits bool.splits)

theorem name_precedence_witness:
  "getFunctionName (Some variableX) namedFunctionExpression = Inr ''x'' \<and>
   kind arrowOne = ArrowFunction \<and> nameText arrowOne = None \<and>
   getFunctionName (Some propertyRun) arrowOne = Inr (ownNameFirst propertyRun arrowOne) \<and>
   ownNameFirst propertyRun arrowOne = ''run''"
proof -
  have a: "kind arrowOne = ArrowFunction" "nameText arrowOne = None"
    by (simp_all add: arrowOne_def)
  have b: "ownNameFirst propertyRun arrowOne = ''run''"
    by (simp add: ownNameFirst_def arrowOne_def propertyRun_def)
  have c: "kind namedFunctionExpression = FunctionExpression" "kind variableX = VariableDeclaration"
    "nameText variableX = Some ''x''"
    by (simp_all add: namedFunctionExpression_def variableX_def)
  have d: "kind propertyRun = PropertyAssignment" "nameText propertyRun = Some ''run''"
    by (simp_all add: propertyRun_def)
  show ?thesis
    using name_precedence [of propertyRun arrowOne] name_precedence [of variableX namedFunctionExpression]
      a b c d by simp
qed

subsection \<open>Classification\<close>

text \<open>
  C4. The rating of a complexity \<open>c\<close> is simple iff \<open>c \<le> 10\<close>, moderate iff
  \<open>11 \<le> c \<le> 20\<close>, complex iff \<open>21 \<le> c \<le> 50\<close>, very complex iff \<open>c \<ge> 51\<close>; for every
  list of records each of the four tallies of the summary counts the records of one
  rating, so every record is tallied in exactly one band, and the tallies add up to the
  number of records.
\<close>

theorem rating_partitions:
  "(getComplexityRating c = Simple \<longleftrightarrow> c \<le> 10) \<and>
   (getComplexityRating c = Moderate \<longleftrightarrow> 11 \<le> c \<and> c \<le> 20) \<and>
   (getComplexityRating c = Complex \<longleftrightarrow> 21 \<le> c \<and> c \<le> 50) \<and>
   (getComplexityRating c = VeryComplex \<longleftrightarrow> 51 \<le> c) \<and>
   simple (tally fs) =
     length (filter (\<lambda>f. getComplexityRating (cyclomaticComplexity f) = Simple) fs) \<and>
   moderate (tally fs) =
     length (filter (\<lambda>f. getComplexityRating (cyclomaticComplexity f) = Moderate) fs) \<and>
   complexCount (tally fs) =
     length (filter (\<lambda>f. getComplexityRating (cyclomaticComplexity f) = Complex) fs) \<and>
   veryComplex (tally fs) =
     length (filter (\<lambda>f. getComplexityRating (cyclomaticComplexity f) = VeryComplex) fs) \<and>
   simple (tally fs) + moderate (tally fs) + complexCount (tally fs) + veryComplex (tally fs) =
     length fs"
  using rating_bands [of c] tally_by_rating [of fs] tally_total [of fs] by blast

theorem rating_partitions_witness:
  "getComplexityRating 10 = Simple \<and> getComplexityRating 11 = Moderate \<and>
   getComplexityRating 50 = Complex \<and> getComplexityRating 51 = VeryComplex \<and>
   tally exampleRecords = \<lparr>simple = 3, moderate = 2, complexCount = 1, veryComplex = 1\<rparr> \<and>
   length exampleRecords = 7"
proof -
  have "tally exampleRecords = \<lparr>simple = 3, moderate = 2, complexCount = 1, veryComplex = 1\<rparr>"
    by (simp add: tally_def exampleRecords_def rec_def)
  moreover have "length exampleRecords = 7" by (simp add: exampleRecords_def)
  ultimately show ?thesis
    using rating_partitions [of 10 exampleRecords] rating_partitions [of 11 exampleRecords]
      rating_partitions [of 50 exampleRecords] rating_partitions [of 51 exampleRecords]
    by simp
qed

subsection \<open>Ranking\<close>

text \<open>
  C5. For every list of records, ranking (the sort of the summary with its comparison
  function) yields the same records in descending order of cyclomatic complexity, and for
  every complexity the records of that complexity appear in their original order.
\<close>

theorem ranking_descending_stable:
  "descending (arraySort compareFn fs) \<and>
   (\<forall>c. withComplexity c (arraySort compareFn fs) = withComplexity c fs) \<and>
   mset (arraySort compareFn fs) = mset fs"
  by (simp add: descending_arraySort withComplexity_arraySort mset_arraySort)

theorem ranking_descending_stable_witness:
  "arraySort compareFn exampleRecords =
     [rec ''d'' 51, rec ''f'' 21, rec ''b'' 12, rec ''e'' 12, rec ''g'' 10, rec ''a'' 3, rec ''c'' 3] \<and>
   descending (arraySort compareFn exampleRecords) \<and>
   withComplexity 12 (arraySort compareFn exampleRecords) = [rec ''b'' 12, rec ''e'' 12] \<and>
   withComplexity 3 (arraySort compareFn exampleRecords) = [rec ''a'' 3, rec ''c'' 3]"
proof -
  have a: "arraySort compareFn exampleRecords =
     [rec ''d'' 51, rec ''f'' 21, rec ''b'' 12, rec ''e'' 12, rec ''g'' 10, rec ''a'' 3, rec ''c'' 3]"
    by (simp add: arraySort_def exampleRecords_def rec_def compareFn_def)
  have b: "withComplexity 12 exampleRecords = [rec ''b'' 12, rec ''e'' 12]"
    "withComplexity 3 exampleRecords = [rec ''a'' 3, rec ''c'' 3]"
    by (simp_all add: withComplexity_def exampleRecords_def rec_def)
  show ?thesis
    using ranking_descending_stable [of exampleRecords] a b by simp
qed

subsection \<open>Failures of single files\<close>

text \<open>
  C6. When reading or parsing a file raises, \<^verbatim>\<open>analyze\<close> returns the empty list and leaves
  the accumulator as it was, and \<^verbatim>\<open>analyze\<close> never raises. A directory walk that can list
  and stat its entries returns the concatenation of the contributions of the selected
  files in order; if one path comes to fail while every other path reads and parses as
  before, the walk returns the same concatenation with nothing in the place of that path.
  This holds however the library joins paths.
\<close>

theorem file_failure_contributes_nothing:
  "(readOrParseFails world path \<longrightarrow>
      analyze world path st = (Inr [], st) \<and> analyzeFile world path = Inr []) \<and>
   (\<forall>e. fst (analyze world path st) \<noteq> Inl e) \<and>
   (walkable contents \<longrightarrow>
      analyzeDirectory join world dir contents exts =
        Inr (concat (map (contribution world) (selectedFiles join exts dir contents)))) \<and>
   (walkable contents \<and> readOrParseFails world' path \<and> sameExcept path world world' \<longrightarrow>
      analyzeDirectory join world' dir contents exts =
        Inr (concat (map (\<lambda>q. if q = path then [] else contribution world q)
                       (selectedFiles join exts dir contents))))"
proof -
  have a: "readOrParseFails world path \<longrightarrow>
      analyze world path st = (Inr [], st) \<and> analyzeFile world path = Inr []"
    by (simp add: analyze_fails analyzeFile_fails)
  have b: "\<forall>e. fst (analyze world path st) \<noteq> Inl e"
    using analyze_never_raises [of world path st] by auto
  have c: "analyzeDirectory join w dir contents exts =
        Inr (concat (map (contribution w) (selectedFiles join exts dir contents)))"
    if "walkable contents" for w
    using walk_concat(1) [OF that, of join w exts dir "[]"]
    by (simp add: analyzeDirectory_def contribution_def [abs_def])
  have d: "contribution world' = (\<lambda>q. if q = path then [] else contribution world q)"
    if "readOrParseFails world' path" "sameExcept path world world'"
    by (rule ext) (rule contribution_after_failure [OF that])
  show ?thesis using a b c d by auto
qed

theorem file_failure_contributes_nothing_witness:
  "readOrParseFails exampleWorld ''src/b.ts'' \<and> readOrParseFails exampleWorld ''src/lib/p.tsx'' \<and>
   analyzeFile exampleWorld ''src/b.ts'' = Inr [] \<and>
   walkable exampleDirectory \<and>
   analyzeDirectory slashJoin exampleWorld ''src'' exampleDirectory defaultExtensions =
     Inr (recordsOf fileA @ recordsOf fileC) \<and>
   readOrParseFails laterWorld ''src/a.ts'' \<and> sameExcept ''src/a.ts'' exampleWorld laterWorld \<and>
   analyzeDirectory slashJoin laterWorld ''src'' exampleDirectory defaultExtensions =
     Inr (recordsOf fileC)"
proof -
  have a: "readOrParseFails exampleWorld ''src/b.ts''" "readOrParseFails exampleWorld ''src/lib/p.tsx''"
    by (simp_all add: readOrParseFails_def exampleWorld_files)
  have b: "readOrParseFails laterWorld ''src/a.ts''" "sameExcept ''src/a.ts'' exampleWorld laterWorld"
    by (simp_all add: readOrParseFails_def laterWorld_def sameExcept_def)
  have c: "contribution exampleWorld ''src/a.ts'' = recordsOf fileA"
    "contribution exampleWorld ''src/b.ts'' = []"
    "contribution exampleWorld ''src/lib/p.tsx'' = []"
    "contribution exampleWorld ''src/lib/c.js'' = recordsOf fileC"
    by (simp_all add: contribution_def exampleWorld_analyzeFile)
  show ?thesis
    using file_failure_contributes_nothing
        [of exampleWorld "''src/b.ts''" newAnalyzer exampleDirectory slashJoin "''src''"
            defaultExtensions laterWorld]
      file_failure_contributes_nothing
        [of exampleWorld "''src/a.ts''" newAnalyzer exampleDirectory slashJoin "''src''"
            defaultExtensions laterWorld]
      a b c exampleDirectory_selected
    by (simp add: analyzeFile_def)
qed

subsection \<open>Exceptions during the visit\<close>

text \<open>
  C7 as stated has an exception raised while visiting a function's subtree leave
  \<^verbatim>\<open>analyze\<close>. In \<^verbatim>\<open>src/m.ts\<close> the complexity calculator raises on the second function,
  and \<^verbatim>\<open>analyze\<close> returns the empty list.
\<close>

theorem visit_error_propagates_counterexample:
  "fst (visitNode fileM None (root fileM) newAnalyzer) = Inl TypeError \<and>
   visitRaises exampleWorld ''src/m.ts'' newAnalyzer \<and>
   fst (analyze exampleWorld ''src/m.ts'' newAnalyzer) = Inr []"
  by (simp add: visitRaises_def analyze_def exampleWorld_files recordsOf_fileM)

text \<open>
  C7, amended. An exception raised while the tree is visited is caught inside
  \<^verbatim>\<open>analyze\<close>, which then returns the empty list; no exception ever leaves \<^verbatim>\<open>analyze\<close>.
\<close>

theorem visit_error_is_caught:
  "(visitRaises world path st \<longrightarrow> fst (analyze world path st) = Inr []) \<and>
   (\<forall>e. fst (analyze world path st) \<noteq> Inl e)"
  using analyze_visitRaises [of world path st] analyze_never_raises [of world path st] by auto

theorem visit_error_is_caught_witness:
  "visitRaises exampleWorld ''src/m.ts'' newAnalyzer \<and>
   fst (analyze exampleWorld ''src/m.ts'' newAnalyzer) = Inr [] \<and>
   fst (analyze exampleWorld ''src/m.ts'' newAnalyzer) \<noteq> Inl TypeError"
proof -
  have "visitRaises exampleWorld ''src/m.ts'' newAnalyzer"
    by (simp add: visitRaises_def exampleWorld_files recordsOf_fileM)
  then show ?thesis
    using visit_error_is_caught [of exampleWorld "''src/m.ts''" newAnalyzer] by simp
qed

subsection \<open>Invariants of the records\<close>

text \<open>
  C8. Every record is to have cyclomatic complexity at least 1, at least 1 line of code,
  nesting depth and parameter count at least 0, line number at least 1, and a name that
  is never empty. The code breaks the last part. In \<^verbatim>\<open>try {} catch ( = () => 1) {}\<close> the
  arrow function is the initialiser of a variable declaration whose name has the empty
  text; the resolver returns that text, and the record, whose numbers are in order, has
  the empty name. For a function declaration or a method with the same empty text the
  resolver falls back to the sentinel.
\<close>

theorem empty_name_for_recovered_binding:
  "recordsOf catchWithoutName =
     [\<lparr>name = [], filePath = ''broken.ts'', lineNumber = 1, cyclomaticComplexity = 1,
       linesOfCode = 1, maxNestingDepth = 0, parameterCount = 0\<rparr>] \<and>
   list_all numericInvariant (recordsOf catchWithoutName) \<and>
   \<not> list_all recordInvariant (recordsOf catchWithoutName) \<and>
   getFunctionName None (Node FunctionDeclaration (Some []) None 0 0 0 []) = Inr ''(anonymous)'' \<and>
   getFunctionName None (Node MethodDeclaration (Some []) None 0 0 0 []) = Inr ''(anonymous)''"
  by (simp add: recordsOf_catchWithoutName recordInvariant_def numericInvariant_def
        getFunctionName_def anonymous_def)

subsection \<open>The accumulator of one analyzer\<close>

text \<open>
  C9 as stated has every second call on an analyzer return the records of the first call
  followed by those of the second file. After \<^verbatim>\<open>src/a.ts\<close> has been analysed, a call on
  the unreadable \<^verbatim>\<open>src/b.ts\<close> returns the empty list, while the accumulator still holds
  the two records of the first file.
\<close>

theorem second_call_returns_all_counterexample:
  "fst (analyze exampleWorld ''src/a.ts'' newAnalyzer) = Inr (recordsOf fileA) \<and>
   map name (recordsOf fileA) = [''f'', ''g''] \<and>
   fst (analyze exampleWorld ''src/b.ts'' (snd (analyze exampleWorld ''src/a.ts'' newAnalyzer))) =
     Inr [] \<and>
   functionsArray
     (snd (analyze exampleWorld ''src/b.ts'' (snd (analyze exampleWorld ''src/a.ts'' newAnalyzer)))) =
     recordsOf fileA"
  by (simp add: analyze_def exampleWorld_files recordsOf_def recordsOf_fileA)

text \<open>
  C9, amended. No call of \<^verbatim>\<open>analyze\<close> removes a record from the accumulator of its
  analyzer: what it held before the call is a prefix of what it holds after. A call that
  succeeds returns the records accumulated before it followed by the records of its own
  file; so after a first successful call on a new analyzer, a second successful call
  returns the first file's records followed by the second file's. A call that does not
  succeed (the read, the parse or the visit raises) returns the empty list, whatever the
  accumulator holds. \<^verbatim>\<open>analyzeFile\<close> returns the records of its file alone, because it
  starts from a new analyzer.
\<close>

theorem accumulator_never_cleared:
  "prefix (functionsArray st) (functionsArray (snd (analyze world path st))) \<and>
   (analysisSucceeds world path \<longrightarrow>
      analyze world path st =
        (Inr (functionsArray st @ ownRecords world path), pushed st (ownRecords world path)) \<and>
      analyzeFile world path = Inr (ownRecords world path)) \<and>
   (analysisSucceeds world path \<and> analysisSucceeds world path' \<longrightarrow>
      fst (analyze world path newAnalyzer) = Inr (ownRecords world path) \<and>
      fst (analyze world path' (snd (analyze world path newAnalyzer))) =
        Inr (ownRecords world path @ ownRecords world path')) \<and>
   (\<not> analysisSucceeds world path \<longrightarrow> fst (analyze world path st) = Inr [])"
proof -
  have a: "prefix (functionsArray st) (functionsArray (snd (analyze world path st)))"
    by (rule analyze_keeps)
  have b: "analyze world q s =
        (Inr (functionsArray s @ ownRecords world q), pushed s (ownRecords world q))"
    if "analysisSucceeds world q" for q s
    using that by (rule analyze_succeeds)
  have c: "analyzeFile world q = Inr (ownRecords world q)" if "analysisSucceeds world q" for q
    using b [OF that, of newAnalyzer] by (simp add: analyzeFile_def)
  have d: "fst (analyze world path st) = Inr []" if "\<not> analysisSucceeds world path"
    using that by (rule analyze_without_success)
  show ?thesis using a b c d by simp
qed

theorem accumulator_never_cleared_witness:
  "analysisSucceeds exampleWorld ''src/a.ts'' \<and> analysisSucceeds exampleWorld ''src/lib/c.js'' \<and>
   map name (ownRecords exampleWorld ''src/a.ts'') = [''f'', ''g''] \<and>
   map name (ownRecords exampleWorld ''src/lib/c.js'') = [''i''] \<and>
   fst (analyze exampleWorld ''src/lib/c.js'' (snd (analyze exampleWorld ''src/a.ts'' newAnalyzer))) =
     Inr (ownRecords exampleWorld ''src/a.ts'' @ ownRecords exampleWorld ''src/lib/c.js'') \<and>
   analyzeFile exampleWorld ''src/lib/c.js'' = Inr (ownRecords exampleWorld ''src/lib/c.js'') \<and>
   \<not> analysisSucceeds exampleWorld ''src/m.ts'' \<and>
   fst (analyze exampleWorld ''src/m.ts'' (snd (analyze exampleWorld ''src/a.ts'' newAnalyzer))) =
     Inr []"
proof -
  have a: "analysisSucceeds exampleWorld ''src/a.ts''" "analysisSucceeds exampleWorld ''src/lib/c.js''"
    by (simp_all add: analysisSucceeds_def exampleWorld_files recordsOf_fileA recordsOf_fileC)
  have b: "map name (ownRecords exampleWorld ''src/a.ts'') = [''f'', ''g'']"
    "map name (ownRecords exampleWorld ''src/lib/c.js'') = [''i'']"
    by (simp_all add: ownRecords_def exampleWorld_files recordsOf_def recordsOf_fileA recordsOf_fileC)
  have c: "fst (analyze exampleWorld ''src/lib/c.js'' (snd (analyze exampleWorld ''src/a.ts'' newAnalyzer))) =
     Inr (ownRecords exampleWorld ''src/a.ts'' @ ownRecords exampleWorld ''src/lib/c.js'')"
    using accumulator_never_cleared [of newAnalyzer exampleWorld "''src/a.ts''" "''src/lib/c.js''"] a
    by blast
  have d: "analyzeFile exampleWorld ''src/lib/c.js'' = Inr (ownRecords exampleWorld ''src/lib/c.js'')"
    using accumulator_never_cleared [of newAnalyzer exampleWorld "''src/lib/c.js''" "''src/lib/c.js''"] a
    by blast
  have e: "\<not> analysisSucceeds exampleWorld ''src/m.ts''"
    by (simp add: analysisSucceeds_def exampleWorld_files recordsOf_fileM)
  have f: "fst (analyze exampleWorld ''src/m.ts'' (snd (analyze exampleWorld ''src/a.ts'' newAnalyzer))) =
     Inr []"
    using accumulator_never_cleared
      [of "snd (analyze exampleWorld ''src/a.ts'' newAnalyzer)" exampleWorld "''src/m.ts''" "''src/m.ts''"] e
    by blast
  show ?thesis using a b c d e f by blast
qed

subsection \<open>The summary sorts the caller's array\<close>

text \<open>
  C10. After \<^verbatim>\<open>printSummary\<close> the array under the reference it was given holds the sort
  of its former contents: in descending order of cyclomatic complexity, with the same
  records, each as it was; every other array of the store is untouched.
\<close>

theorem printSummary_sorts_in_place:
  "snd (printSummary r t h) r = arraySort compareFn (h r) \<and>
   descending (snd (printSummary r t h) r) \<and>
   mset (snd (printSummary r t h) r) = mset (h r) \<and>
   (snd (printSummary r t h))(r := h r) = h"
  by (simp add: printSummary_store descending_arraySort mset_arraySort)

theorem printSummary_sorts_in_place_witness:
  "snd (printSummary 0 10 exampleStore) 0 =
     [rec ''d'' 51, rec ''f'' 21, rec ''b'' 12, rec ''e'' 12, rec ''g'' 10, rec ''a'' 3, rec ''c'' 3] \<and>
   exampleStore 0 =
     [rec ''a'' 3, rec ''b'' 12, rec ''c'' 3, rec ''d'' 51, rec ''e'' 12, rec ''f'' 21, rec ''g'' 10] \<and>
   snd (printSummary 0 10 exampleStore) 1 = exampleStore 1"
proof -
  have a: "arraySort compareFn exampleRecords =
     [rec ''d'' 51, rec ''f'' 21, rec ''b'' 12, rec ''e'' 12, rec ''g'' 10, rec ''a'' 3, rec ''c'' 3]"
    by (simp add: arraySort_def exampleRecords_def rec_def compareFn_def)
  have b: "exampleStore 0 = exampleRecords" by (simp add: exampleStore_def)
  have c: "(snd (printSummary 0 10 exampleStore))(0 := exampleStore 0) = exampleStore"
    using printSummary_sorts_in_place [of 0 10 exampleStore] by simp
  have "snd (printSummary 0 10 exampleStore) 1 = exampleStore 1"
    using fun_cong [OF c, of 1] by simp
  then show ?thesis
    using printSummary_sorts_in_place [of 0 10 exampleStore] a b
    by (simp add: exampleRecords_def)
qed

end
